theory Spec2Isabelle
  imports Complex_Main "HOL-Library.Word"
begin

unbundle bit_operations_syntax

section \<open>The breach classifier of predictor.py\<close>

text \<open>
  Temperatures are Python floats; they are modelled as reals, so the model covers the
  finite values (no NaN, no infinity) and reads every comparison and every arithmetic
  operation of the source as the exact one.
\<close>

datatype alert_type = HIGH_TEMP | LOW_TEMP

datatype severity = CRITICAL | WARNING

record TemperaturePredictor =
  safe_min :: real
  safe_max :: real
  prediction_horizon :: nat
  sample_interval :: nat

text \<open>\<^verbatim>\<open>__init__(self, safe_min=2.0, safe_max=8.0)\<close>\<close>

definition TemperaturePredictor_init :: "real \<Rightarrow> real \<Rightarrow> TemperaturePredictor" where
  "TemperaturePredictor_init smin smax =
     \<lparr>safe_min = smin, safe_max = smax, prediction_horizon = 120, sample_interval = 5\<rparr>"

text \<open>\<^verbatim>\<open>np.where(cond)[0]\<close>: the indices at which the condition holds, ascending.\<close>

definition np_where :: "(real \<Rightarrow> bool) \<Rightarrow> real list \<Rightarrow> nat list" where
  "np_where P xs = filter (\<lambda>i. P (xs ! i)) [0..<length xs]"

definition upper_breach_indices :: "TemperaturePredictor \<Rightarrow> real list \<Rightarrow> nat list" where
  "upper_breach_indices self predictions = np_where (\<lambda>v. v > safe_max self) predictions"

definition lower_breach_indices :: "TemperaturePredictor \<Rightarrow> real list \<Rightarrow> nat list" where
  "lower_breach_indices self predictions = np_where (\<lambda>v. v < safe_min self) predictions"

definition upper_warning_indices :: "TemperaturePredictor \<Rightarrow> real list \<Rightarrow> nat list" where
  "upper_warning_indices self predictions =
     np_where (\<lambda>v. v > safe_max self - 0.5) predictions"

definition lower_warning_indices :: "TemperaturePredictor \<Rightarrow> real list \<Rightarrow> nat list" where
  "lower_warning_indices self predictions =
     np_where (\<lambda>v. v < safe_min self + 0.5) predictions"

type_synonym breach_risk = "alert_type option \<times> severity option \<times> nat option"

text \<open>
  The two warning scans of the source: each is tried only when its index list is not
  empty and returns only when the minutes are at most 120; otherwise control falls
  through to the next test.
\<close>

definition lower_warning :: "TemperaturePredictor \<Rightarrow> real list \<Rightarrow> breach_risk" where
  "lower_warning self predictions =
     (case lower_warning_indices self predictions of
        [] \<Rightarrow> (None, None, None)
      | first_warning_idx # _ \<Rightarrow>
          (let minutes_to_warning = (first_warning_idx + 1) * sample_interval self
           in if minutes_to_warning \<le> 120
              then (Some LOW_TEMP, Some WARNING, Some minutes_to_warning)
              else (None, None, None)))"

definition upper_warning :: "TemperaturePredictor \<Rightarrow> real list \<Rightarrow> breach_risk" where
  "upper_warning self predictions =
     (case upper_warning_indices self predictions of
        [] \<Rightarrow> lower_warning self predictions
      | first_warning_idx # _ \<Rightarrow>
          (let minutes_to_warning = (first_warning_idx + 1) * sample_interval self
           in if minutes_to_warning \<le> 120
              then (Some HIGH_TEMP, Some WARNING, Some minutes_to_warning)
              else lower_warning self predictions))"

definition check_breach_risk ::
  "TemperaturePredictor \<Rightarrow> real list option \<Rightarrow> real \<Rightarrow> breach_risk" where
  "check_breach_risk self predictions current_temp =
     (case predictions of
        None \<Rightarrow> (None, None, None)
      | Some ps \<Rightarrow>
          (case upper_breach_indices self ps of
             first_breach_idx # _ \<Rightarrow>
               (let minutes_to_breach = (first_breach_idx + 1) * sample_interval self;
                    severity = (if minutes_to_breach \<le> 60 then CRITICAL else WARNING)
                in (Some HIGH_TEMP, Some severity, Some minutes_to_breach))
           | [] \<Rightarrow>
               (case lower_breach_indices self ps of
                  first_breach_idx # _ \<Rightarrow>
                    (let minutes_to_breach = (first_breach_idx + 1) * sample_interval self;
                         severity = (if minutes_to_breach \<le> 60 then CRITICAL else WARNING)
                     in (Some LOW_TEMP, Some severity, Some minutes_to_breach))
                | [] \<Rightarrow> upper_warning self ps)))"

section \<open>The forecast of predictor.py\<close>

text \<open>
  The rows of the data frame handed to \<^verbatim>\<open>predict_temperature\<close>; only the temperature column
  is read. The row's time is kept as minutes since some origin.
\<close>

record reading =
  r_timestamp :: int
  r_temperature :: real

datatype py_error = IndexError | ZeroDivisionError

text \<open>
  The two clocks the function reads: \<^verbatim>\<open>time.time()\<close> at entry and before each return, and
  \<^verbatim>\<open>pd.Timestamp.now().hour\<close> once in every iteration of the projection loop
  (\<open>hour_at k\<close> is the hour read in iteration \<open>k\<close>, counted from 0).
\<close>

record clock =
  time_start :: real
  time_end :: real
  hour_at :: "nat \<Rightarrow> nat"

text \<open>
  The regression of scikit-learn is not code of this repository. It is a parameter:
  \<open>ridge alpha random_state X y\<close> stands for the prediction function of
  \<^verbatim>\<open>Ridge(alpha=alpha, random_state=random_state)\<close> after \<^verbatim>\<open>fit(X, y)\<close>, applied to one
  feature row.
\<close>

type_synonym ridge = "real \<Rightarrow> nat \<Rightarrow> real list list \<Rightarrow> real list \<Rightarrow> real list \<Rightarrow> real"

text \<open>\<^verbatim>\<open>a // b\<close> on Python ints.\<close>

definition py_floordiv :: "nat \<Rightarrow> nat \<Rightarrow> py_error + nat" where
  "py_floordiv a b = (if b = 0 then Inl ZeroDivisionError else Inr (a div b))"

text \<open>
  \<^verbatim>\<open>series.ewm(alpha=alpha).mean()\<close> with the default \<^verbatim>\<open>adjust=True\<close>: the value at
  \<open>t\<close> is the sum of \<open>(1 - alpha)^i * x(t - i)\<close> divided by the sum of \<open>(1 - alpha)^i\<close>,
  \<open>i = 0..t\<close>. The two sums are carried along.
\<close>

fun ewm_mean :: "real \<Rightarrow> real \<Rightarrow> real \<Rightarrow> real list \<Rightarrow> real list" where
  "ewm_mean alpha num den [] = []"
| "ewm_mean alpha num den (x # xs) =
     (let num' = x + (1 - alpha) * num; den' = 1 + (1 - alpha) * den
      in (num' / den') # ewm_mean alpha num' den' xs)"

definition smooth_temperature :: "real list \<Rightarrow> real \<Rightarrow> real list" where
  "smooth_temperature series alpha = ewm_mean alpha 0 0 series"

definition mean :: "real list \<Rightarrow> real" where
  "mean xs = sum_list xs / real (length xs)"

text \<open>\<^verbatim>\<open>window.std()\<close> of pandas divides by \<open>n - 1\<close>, \<^verbatim>\<open>np.std\<close> by \<open>n\<close>.\<close>

definition pd_std :: "real list \<Rightarrow> real" where
  "pd_std xs = sqrt (sum_list (map (\<lambda>x. (x - mean xs)\<^sup>2) xs) / (real (length xs) - 1))"

definition np_std :: "real list \<Rightarrow> real" where
  "np_std xs = sqrt (sum_list (map (\<lambda>x. (x - mean xs)\<^sup>2) xs) / real (length xs))"

text \<open>
  One feature row. \<^verbatim>\<open>window.iloc[-1]\<close> and \<^verbatim>\<open>current_window[-1]\<close> raise IndexError on an
  empty window; \<open>std\<close> is the deviation the caller uses.
\<close>

definition window_features :: "(real list \<Rightarrow> real) \<Rightarrow> real list \<Rightarrow> nat \<Rightarrow> py_error + real list" where
  "window_features std window lags =
     (if window = [] then Inl IndexError
      else Inr [last window,
                mean window,
                std window,
                (last window - hd window) / real lags,
                last window - mean window,
                (if length window \<ge> 4 then mean (drop (length window - 4) window)
                 else mean window)])"

text \<open>Collecting the rows of a loop that may raise: the first error ends it.\<close>

fun collect :: "(py_error + 'a) list \<Rightarrow> py_error + 'a list" where
  "collect [] = Inr []"
| "collect (Inl e # _) = Inl e"
| "collect (Inr x # rs) = (case collect rs of Inl e \<Rightarrow> Inl e | Inr xs \<Rightarrow> Inr (x # xs))"

text \<open>\<^verbatim>\<open>series.iloc[i-lags:i]\<close> for \<open>i\<close> in \<^verbatim>\<open>range(lags, len(series))\<close>.\<close>

definition create_features :: "real list \<Rightarrow> nat \<Rightarrow> py_error + real list list" where
  "create_features series lags =
     collect (map (\<lambda>i. window_features pd_std (take lags (drop (i - lags) series)) lags)
                  [lags..<length series])"

definition mean_absolute_error :: "real list \<Rightarrow> real list \<Rightarrow> real" where
  "mean_absolute_error y y_pred = mean (map (\<lambda>(a, b). \<bar>a - b\<bar>) (zip y y_pred))"

text \<open>\<^verbatim>\<open>round(x, 1)\<close>: to one decimal, a tie going to the even neighbour.\<close>

definition py_round1 :: "real \<Rightarrow> real" where
  "py_round1 x =
     (let y = x * 10; f = \<lfloor>y\<rfloor>; d = y - of_int f
      in of_int (if d < 1 / 2 then f else if d > 1 / 2 then f + 1
                 else if even f then f else f + 1) / 10)"

text \<open>
  The projection loop, \<open>n\<close> iterations left, \<open>k\<close> done: the adjusted prediction is
  appended to the output and to the window, whose oldest value is dropped.
\<close>

fun project :: "(real list \<Rightarrow> real) \<Rightarrow> nat \<Rightarrow> (nat \<Rightarrow> nat) \<Rightarrow> nat \<Rightarrow> nat \<Rightarrow> real list
                  \<Rightarrow> py_error + real list" where
  "project model lags hours k 0 current_window = Inr []"
| "project model lags hours k (Suc n) current_window =
     (case window_features np_std current_window lags of
        Inl e \<Rightarrow> Inl e
      | Inr features \<Rightarrow>
          (let next_temp = model features;
               current_hour = hours k;
               next_temp = (if 20 \<le> current_hour \<or> current_hour < 6 then next_temp - 0.05
                            else if 10 \<le> current_hour \<and> current_hour < 16 then next_temp + 0.05
                            else next_temp)
           in case project model lags hours (Suc k) n (tl current_window @ [next_temp]) of
                Inl e \<Rightarrow> Inl e
              | Inr predictions \<Rightarrow> Inr (next_temp # predictions)))"

text \<open>
  \<^verbatim>\<open>predict_temperature\<close>: the forecast (or None), the elapsed milliseconds and the
  accuracy, or the exception raised.
\<close>

definition predict_temperature ::
  "TemperaturePredictor \<Rightarrow> ridge \<Rightarrow> clock \<Rightarrow> reading list
     \<Rightarrow> py_error + (real list option \<times> real \<times> real)" where
  "predict_temperature self ridge clk temperature_data =
     (let elapsed = (time_end clk - time_start clk) * 1000 in
      if length temperature_data < 20 then
        (let last_temp = (if length temperature_data > 0
                          then r_temperature (last temperature_data) else 5.0)
         in case py_floordiv (prediction_horizon self) (sample_interval self) of
              Inl e \<Rightarrow> Inl e
            | Inr steps \<Rightarrow>
                Inr (Some (map (\<lambda>i. last_temp + real i * 0.05) [1..<steps + 1]), elapsed, 75.0))
      else
        (let series = smooth_temperature (map r_temperature temperature_data) 0.3;
             lags = min 12 (length temperature_data div 3)
         in if length series < lags + 5 then Inr (None, elapsed, 75.0)
            else
              (case create_features series lags of
                 Inl e \<Rightarrow> Inl e
               | Inr X \<Rightarrow>
                   (let y = drop lags series;
                        model = ridge 1.0 42 X y;
                        y_pred = map model X;
                        mae = mean_absolute_error y y_pred;
                        accuracy = max 75.0 (100 - mae * 10);
                        current_window = drop (length series - lags) series
                    in case py_floordiv (prediction_horizon self) (sample_interval self) of
                         Inl e \<Rightarrow> Inl e
                       | Inr steps \<Rightarrow>
                           (case project model lags (hour_at clk) 0 steps current_window of
                              Inl e \<Rightarrow> Inl e
                            | Inr predictions \<Rightarrow>
                                Inr (Some predictions, elapsed, py_round1 accuracy))))))"

text \<open>
  Inputs for the examples: two clocks that agree on the hour (noon) and differ in the
  time readings, and a regression that predicts the latest value of the window.
\<close>

definition noon_clock :: clock where
  "noon_clock = \<lparr>time_start = 0, time_end = 0.002, hour_at = (\<lambda>k. 12)\<rparr>"

definition noon_clock_later :: clock where
  "noon_clock_later = \<lparr>time_start = 7, time_end = 9.5, hour_at = (\<lambda>k. 12)\<rparr>"

definition latest_value_model :: ridge where
  "latest_value_model alpha random_state X y features = hd features"

definition three_readings :: "reading list" where
  "three_readings = [\<lparr>r_timestamp = 0, r_temperature = 5\<rparr>,
                     \<lparr>r_timestamp = 5, r_temperature = 5\<rparr>,
                     \<lparr>r_timestamp = 10, r_temperature = 5\<rparr>]"

definition twenty_readings :: "reading list" where
  "twenty_readings = map (\<lambda>i. \<lparr>r_timestamp = 5 * int i, r_temperature = 5\<rparr>) [0..<20]"

section \<open>SHA-256\<close>

text \<open>
  \<^verbatim>\<open>hashlib.sha256(s.encode()).hexdigest()\<close> is not code of this repository. It is
  written out after FIPS 180-4 on 32-bit words held as integers, every addition reduced
  modulo \<open>2^32\<close>; a string is the list of the bytes of its UTF-8 encoding.
\<close>

type_synonym w32 = int

definition add32 :: "w32 \<Rightarrow> w32 \<Rightarrow> w32" where
  "add32 x y = (x + y) mod 4294967296"

definition rotr :: "nat \<Rightarrow> w32 \<Rightarrow> w32" where
  "rotr n x = (drop_bit n x) OR (push_bit (32 - n) x mod 4294967296)"

definition Ch :: "w32 \<Rightarrow> w32 \<Rightarrow> w32 \<Rightarrow> w32" where
  "Ch x y z = (x AND y) XOR ((4294967295 - x) AND z)"

definition Maj :: "w32 \<Rightarrow> w32 \<Rightarrow> w32 \<Rightarrow> w32" where
  "Maj x y z = (x AND y) XOR (x AND z) XOR (y AND z)"

definition bsig0 :: "w32 \<Rightarrow> w32" where
  "bsig0 x = rotr 2 x XOR rotr 13 x XOR rotr 22 x"

definition bsig1 :: "w32 \<Rightarrow> w32" where
  "bsig1 x = rotr 6 x XOR rotr 11 x XOR rotr 25 x"

definition ssig0 :: "w32 \<Rightarrow> w32" where
  "ssig0 x = rotr 7 x XOR rotr 18 x XOR drop_bit 3 x"

definition ssig1 :: "w32 \<Rightarrow> w32" where
  "ssig1 x = rotr 17 x XOR rotr 19 x XOR drop_bit 10 x"

definition sha256_K :: "w32 list" where
  "sha256_K = [
   1116352408, 1899447441, 3049323471, 3921009573, 961987163, 1508970993, 2453635748, 2870763221,
   3624381080, 310598401, 607225278, 1426881987, 1925078388, 2162078206, 2614888103, 3248222580,
   3835390401, 4022224774, 264347078, 604807628, 770255983, 1249150122, 1555081692, 1996064986,
   2554220882, 2821834349, 2952996808, 3210313671, 3336571891, 3584528711, 113926993, 338241895,
   666307205, 773529912, 1294757372, 1396182291, 1695183700, 1986661051, 2177026350, 2456956037,
   2730485921, 2820302411, 3259730800, 3345764771, 3516065817, 3600352804, 4094571909, 275423344,
   430227734, 506948616, 659060556, 883997877, 958139571, 1322822218, 1537002063, 1747873779,
   1955562222, 2024104815, 2227730452, 2361852424, 2428436474, 2756734187, 3204031479, 3329325298]"

definition sha256_H0 :: "w32 list" where
  "sha256_H0 = [1779033703, 3144134277, 1013904242, 2773480762,
                1359893119, 2600822924, 528734635, 1541459225]"

text \<open>The sixteen most recent words of the message schedule, oldest first.\<close>
definition next_window :: "w32 list \<Rightarrow> w32 list" where
  "next_window ws =
     tl ws @ [add32 (add32 (add32 (ssig1 (ws ! 14)) (ws ! 9)) (ssig0 (ws ! 1))) (ws ! 0)]"

definition shift_in :: "w32 \<Rightarrow> w32 \<Rightarrow> w32 list \<Rightarrow> w32 list" where
  "shift_in t1 t2 s = (case s of [a, b, c, d, e, f, g, h] \<Rightarrow> [add32 t1 t2, a, b, c, add32 d t1, e, f, g] | _ \<Rightarrow> s)"

fun sha_round :: "w32 list \<Rightarrow> w32 \<Rightarrow> w32 \<Rightarrow> w32 list" where
  "sha_round [a, b, c, d, e, f, g, h] k w =
     shift_in (add32 (add32 (add32 (add32 h (bsig1 e)) (Ch e f g)) k) w) (add32 (bsig0 a) (Maj a b c)) [a, b, c, d, e, f, g, h]"
| "sha_round s k w = s"

fun rounds :: "w32 list \<Rightarrow> w32 list \<Rightarrow> w32 list \<Rightarrow> w32 list" where
  "rounds [] ws s = s"
| "rounds (k # ks) ws s = rounds ks (next_window ws) (sha_round s k (hd ws))"

definition compress :: "w32 list \<Rightarrow> w32 list \<Rightarrow> w32 list" where
  "compress hs blk = map2 add32 hs (rounds sha256_K blk hs)"

function sha_blocks :: "w32 list \<Rightarrow> w32 list \<Rightarrow> w32 list" where
  "sha_blocks hs ws =
     (if length ws < 16 then hs else sha_blocks (compress hs (take 16 ws)) (drop 16 ws))"
  by pat_completeness auto
termination
  by (relation "measure (\<lambda>(hs, ws). length ws)") auto

fun words_of :: "int list \<Rightarrow> w32 list" where
  "words_of (a # b # c # d # r) = (((a * 256 + b) * 256 + c) * 256 + d) # words_of r"
| "words_of r = []"

fun count :: "int \<Rightarrow> 'a list \<Rightarrow> int" where
  "count n [] = n"
| "count n (x # xs) = count (n + 1) xs"

definition zeros64 :: "int list" where
  "zeros64 = [0,0,0,0,0,0,0,0, 0,0,0,0,0,0,0,0, 0,0,0,0,0,0,0,0, 0,0,0,0,0,0,0,0,
              0,0,0,0,0,0,0,0, 0,0,0,0,0,0,0,0, 0,0,0,0,0,0,0,0, 0,0,0,0,0,0,0,0]"

definition sha256_pad :: "int list \<Rightarrow> int list" where
  "sha256_pad m =
     (let n = count 0 m
      in m @ [128] @ take (nat ((119 - n mod 64) mod 64)) zeros64 @
         [0, 0, 0, 0, (8 * n) div 16777216 mod 256, (8 * n) div 65536 mod 256,
          (8 * n) div 256 mod 256, (8 * n) mod 256])"

definition hex_digit :: "w32 \<Rightarrow> char" where
  "hex_digit w = ''0123456789abcdef'' ! nat (w AND 15)"

definition hex8 :: "w32 \<Rightarrow> string" where
  "hex8 w = map (\<lambda>s. hex_digit (drop_bit s w)) [28, 24, 20, 16, 12, 8, 4, 0]"

definition sha256 :: "string \<Rightarrow> string" where
  "sha256 s = concat (map hex8 (sha_blocks sha256_H0 (words_of (sha256_pad (map of_char s)))))"

section \<open>The hash chains of database.py\<close>

text \<open>
  A \<^verbatim>\<open>datetime\<close> without time zone, as \<^verbatim>\<open>datetime.now()\<close> returns it and as the
  driver returns the value of a TIMESTAMP column.
\<close>

record datetime =
  dt_year :: nat
  dt_month :: nat
  dt_day :: nat
  dt_hour :: nat
  dt_minute :: nat
  dt_second :: nat
  dt_microsecond :: nat

definition digit :: "nat \<Rightarrow> char" where
  "digit n = ''0123456789'' ! (n mod 10)"

definition dec2 :: "nat \<Rightarrow> string" where
  "dec2 n = [digit (n div 10), digit n]"

definition dec4 :: "nat \<Rightarrow> string" where
  "dec4 n = [digit (n div 1000), digit (n div 100), digit (n div 10), digit n]"

definition dec6 :: "nat \<Rightarrow> string" where
  "dec6 n = [digit (n div 100000), digit (n div 10000), digit (n div 1000),
             digit (n div 100), digit (n div 10), digit n]"

text \<open>
  \<^verbatim>\<open>datetime.isoformat(sep)\<close>: \<^verbatim>\<open>YYYY-MM-DD\<close>, the separator, \<^verbatim>\<open>HH:MM:SS\<close>, and
  \<^verbatim>\<open>.ffffff\<close> when the microsecond is not 0. \<^verbatim>\<open>isoformat()\<close> separates with \<^verbatim>\<open>T\<close>;
  \<^verbatim>\<open>str(dt)\<close>, which an f-string applies to a \<^verbatim>\<open>datetime\<close>, is \<^verbatim>\<open>isoformat(sep=' ')\<close>.
\<close>

definition isoformat_sep :: "char \<Rightarrow> datetime \<Rightarrow> string" where
  "isoformat_sep sep dt =
     dec4 (dt_year dt) @ ''-'' @ dec2 (dt_month dt) @ ''-'' @ dec2 (dt_day dt) @ [sep] @
     dec2 (dt_hour dt) @ '':'' @ dec2 (dt_minute dt) @ '':'' @ dec2 (dt_second dt) @
     (if dt_microsecond dt = 0 then [] else ''.'' @ dec6 (dt_microsecond dt))"

definition isoformat :: "datetime \<Rightarrow> string" where
  "isoformat dt = isoformat_sep (CHR ''T'') dt"

definition datetime_str :: "datetime \<Rightarrow> string" where
  "datetime_str dt = isoformat_sep (CHR '' '') dt"

text \<open>
  The tables, with the columns of \<^verbatim>\<open>init_database\<close> that the functions below write or
  read (\<^verbatim>\<open>created_at\<close>, which none of them touches, is left out). A row holds the values
  handed to INSERT as its columns store them: the \<^verbatim>\<open>timestamp\<close> columns have the type
  TIMESTAMP, so the ISO text is stored, and read back, as the \<^verbatim>\<open>datetime\<close> it denotes;
  \<^verbatim>\<open>temperature\<close> has the type DECIMAL(5,2) and holds the value rounded to two decimals;
  the text columns hold the text handed to them. A table is
  the list of its rows in insertion order; \<^verbatim>\<open>id\<close> is SERIAL, drawn from the table's
  sequence.
\<close>

record audit_row =
  a_id :: nat
  a_doctor_id :: string
  a_timestamp :: datetime
  a_action :: string
  a_previous_hash :: string
  a_current_hash :: string
  a_details :: string

record temperature_row =
  t_id :: nat
  t_doctor_id :: string
  t_device_id :: string
  t_timestamp :: datetime
  t_temperature :: real
  t_vaccine_type :: string
  t_location :: string
  t_prev_hash :: string
  t_current_hash :: string

record db =
  doctors :: "string list"
  audit_trail :: "audit_row list"
  audit_trail_id_seq :: nat
  temperature_logs :: "temperature_row list"
  temperature_logs_id_seq :: nat

text \<open>
  \<^verbatim>\<open>psycopg2.Error\<close>, which both append functions catch, roll back and raise again. The
  model raises it for the FOREIGN KEY constraint on \<^verbatim>\<open>doctor_id\<close> (the sequence keeps the
  value it drew) and for a temperature that overflows its column; the table is unchanged.
\<close>

datatype db_error = ForeignKeyViolation | NumericValueOutOfRange

text \<open>\<^verbatim>\<open>"0" * 64\<close>\<close>

definition sentinel :: string where
  "sentinel = ''0000000000000000000000000000000000000000000000000000000000000000''"

text \<open>\<^verbatim>\<open>SELECT ... FROM audit_trail WHERE doctor_id=%s ORDER BY id\<close>\<close>

definition audit_stream :: "db \<Rightarrow> string \<Rightarrow> audit_row list" where
  "audit_stream d doctor_id =
     sort_key a_id (filter (\<lambda>r. a_doctor_id r = doctor_id) (audit_trail d))"


text \<open>
  \<^verbatim>\<open>add_audit_entry\<close>; \<open>now\<close> is the value of \<^verbatim>\<open>datetime.now()\<close>. The result is the
  returned hash or the exception, and the database after the call.
\<close>

definition add_audit_entry ::
  "db \<Rightarrow> datetime \<Rightarrow> string \<Rightarrow> string \<Rightarrow> string \<Rightarrow> (db_error + string) \<times> db" where
  "add_audit_entry d now doctor_id action details =
     (let result = (case rev (audit_stream d doctor_id) of
                      [] \<Rightarrow> None | r # _ \<Rightarrow> Some (a_current_hash r));
          previous_hash = (case result of Some h \<Rightarrow> h | None \<Rightarrow> sentinel);
          timestamp = isoformat now;
          data_string = timestamp @ ''|'' @ doctor_id @ ''|'' @ action @ ''|'' @ details
                          @ ''|'' @ previous_hash;
          current_hash = sha256 data_string;
          new_id = audit_trail_id_seq d + 1
      in if doctor_id \<in> set (doctors d)
         then (Inr current_hash,
               d\<lparr>audit_trail := audit_trail d @
                    [\<lparr>a_id = new_id, a_doctor_id = doctor_id, a_timestamp = now,
                      a_action = action, a_previous_hash = previous_hash,
                      a_current_hash = current_hash, a_details = details\<rparr>],
                 audit_trail_id_seq := new_id\<rparr>)
         else (Inl ForeignKeyViolation, d\<lparr>audit_trail_id_seq := new_id\<rparr>))"



text \<open>
  \<^verbatim>\<open>verify_audit_trail\<close>. The loop reads \<^verbatim>\<open>timestamp\<close> from the row, a \<^verbatim>\<open>datetime\<close>, and
  formats it in the f-string; \<^verbatim>\<open>doctor_id\<close> is the argument of the call.
\<close>

record verification =
  v_id :: nat
  v_timestamp :: datetime
  v_action :: string
  v_status :: string

definition valid_result :: "audit_row \<Rightarrow> verification" where
  "valid_result entry = \<lparr>v_id = a_id entry, v_timestamp = a_timestamp entry,
                          v_action = a_action entry, v_status = ''VALID''\<rparr>"

definition calculated_hash :: "string \<Rightarrow> audit_row \<Rightarrow> string" where
  "calculated_hash doctor_id entry =
     sha256 (datetime_str (a_timestamp entry) @ ''|'' @ doctor_id @ ''|'' @ a_action entry
               @ ''|'' @ a_details entry @ ''|'' @ a_previous_hash entry)"

fun verify_loop :: "string \<Rightarrow> audit_row list \<Rightarrow> string \<Rightarrow> verification list
                      \<Rightarrow> bool \<times> nat option \<times> verification list" where
  "verify_loop doctor_id [] previous_hash verification_results =
     (True, None, verification_results)"
| "verify_loop doctor_id (entry # entries) previous_hash verification_results =
     (if a_previous_hash entry \<noteq> previous_hash
      then (False, Some (a_id entry), verification_results)
      else if calculated_hash doctor_id entry \<noteq> a_current_hash entry
      then (False, Some (a_id entry), verification_results)
      else verify_loop doctor_id entries (a_current_hash entry)
             (verification_results @ [valid_result entry]))"

definition verify_audit_trail :: "db \<Rightarrow> string \<Rightarrow> bool \<times> nat option \<times> verification list" where
  "verify_audit_trail d doctor_id = verify_loop doctor_id (audit_stream d doctor_id) sentinel []"

text \<open>
  Tampering, for the properties of \<^verbatim>\<open>verify_audit_trail\<close>: an UPDATE of the row with
  the given \<^verbatim>\<open>id\<close>.
\<close>

definition update_audit_row :: "nat \<Rightarrow> (audit_row \<Rightarrow> audit_row) \<Rightarrow> db \<Rightarrow> db" where
  "update_audit_row n f d =
     d\<lparr>audit_trail := map (\<lambda>r. if a_id r = n then f r else r) (audit_trail d)\<rparr>"










text \<open>
  For the examples: the database after \<^verbatim>\<open>init_database\<close> (the sample doctor, empty
  tables), three times of a day, the update of the details of a row, and the trail after
  three entries of the sample doctor.
\<close>

definition init_database :: db where
  "init_database = \<lparr>doctors = [''DOC001''], audit_trail = [], audit_trail_id_seq = 0,
                     temperature_logs = [], temperature_logs_id_seq = 0\<rparr>"

definition new_year_noon :: datetime where
  "new_year_noon = \<lparr>dt_year = 2024, dt_month = 1, dt_day = 1, dt_hour = 12, dt_minute = 0,
                     dt_second = 0, dt_microsecond = 0\<rparr>"

definition five_past_noon :: datetime where
  "five_past_noon = \<lparr>dt_year = 2024, dt_month = 1, dt_day = 1, dt_hour = 12, dt_minute = 5,
                      dt_second = 0, dt_microsecond = 0\<rparr>"

definition ten_past_noon :: datetime where
  "ten_past_noon = \<lparr>dt_year = 2024, dt_month = 1, dt_day = 1, dt_hour = 12, dt_minute = 10,
                     dt_second = 0, dt_microsecond = 0\<rparr>"

definition set_details :: "string \<Rightarrow> audit_row \<Rightarrow> audit_row" where
  "set_details v r = r\<lparr>a_details := v\<rparr>"

definition three_entries :: db where
  "three_entries =
     snd (add_audit_entry
       (snd (add_audit_entry
          (snd (add_audit_entry init_database new_year_noon ''DOC001'' ''LOGIN'' ''ok''))
          five_past_noon ''DOC001'' ''MANUAL_TEMP_ENTRY'' ''ok''))
       ten_past_noon ''DOC001'' ''LOGOUT'' ''ok'')"




section \<open>Properties of the breach classifier\<close>

lemma np_where_first:
  assumes "i < length xs" and "P (xs ! i)" and "\<forall>j<i. \<not> P (xs ! j)"
  shows "\<exists>rest. np_where P xs = i # rest"
proof -
  have split: "[0..<length xs] = [0..<i] @ i # [Suc i..<length xs]"
    using assms(1) by (metis le0 less_imp_le_nat upt_add_eq_append upt_conv_Cons
        ordered_cancel_comm_monoid_diff_class.add_diff_inverse plus_nat.add_0)
  have "filter (\<lambda>k. P (xs ! k)) [0..<i] = []"
    using assms(3) by (simp add: filter_empty_conv)
  then show ?thesis
    unfolding np_where_def by (subst split) (simp add: assms(2))
qed

lemma np_where_empty:
  assumes "\<forall>j<length xs. \<not> P (xs ! j)"
  shows "np_where P xs = []"
  using assms unfolding np_where_def by (simp add: filter_empty_conv)

lemma np_where_mem: "i \<in> set (np_where P xs) \<longleftrightarrow> i < length xs \<and> P (xs ! i)"
  unfolding np_where_def by auto

lemma check_breach_risk_upper:
  assumes "i < length ps" and "ps ! i > safe_max self"
    and "\<forall>j<i. \<not> ps ! j > safe_max self"
  shows "check_breach_risk self (Some ps) cur =
           (Some HIGH_TEMP,
            Some (if (i + 1) * sample_interval self \<le> 60 then CRITICAL else WARNING),
            Some ((i + 1) * sample_interval self))"
proof -
  obtain rest where "upper_breach_indices self ps = i # rest"
    using np_where_first [of i ps "\<lambda>v. v > safe_max self"] assms
    unfolding upper_breach_indices_def by blast
  then show ?thesis
    by (simp add: check_breach_risk_def Let_def)
qed

lemma check_breach_risk_lower:
  assumes "i < length ps" and "ps ! i < safe_min self"
    and "\<forall>j<i. \<not> ps ! j < safe_min self"
    and "\<forall>j<length ps. \<not> ps ! j > safe_max self"
  shows "check_breach_risk self (Some ps) cur =
           (Some LOW_TEMP,
            Some (if (i + 1) * sample_interval self \<le> 60 then CRITICAL else WARNING),
            Some ((i + 1) * sample_interval self))"
proof -
  have up: "upper_breach_indices self ps = []"
    using np_where_empty [of ps "\<lambda>v. v > safe_max self"] assms(4)
    unfolding upper_breach_indices_def by blast
  obtain rest where "lower_breach_indices self ps = i # rest"
    using np_where_first [of i ps "\<lambda>v. v < safe_min self"] assms(1-3)
    unfolding lower_breach_indices_def by blast
  with up show ?thesis
    by (simp add: check_breach_risk_def Let_def)
qed

text \<open>
  C4. An actual breach outranks a warning: when some forecast value is strictly above
  \<open>safe_max\<close>, the classifier reports HIGH_TEMP at the first such index, whatever the
  other values are (so also when an earlier value lies in the lower warning margin).
\<close>

theorem breach_outranks_warning:
  assumes "i < length ps" and "ps ! i > safe_max self"
    and "\<forall>j<i. \<not> ps ! j > safe_max self"
  shows "check_breach_risk self (Some ps) cur =
           (Some HIGH_TEMP,
            Some (if (i + 1) * sample_interval self \<le> 60 then CRITICAL else WARNING),
            Some ((i + 1) * sample_interval self))"
  using assms by (rule check_breach_risk_upper)

text \<open>
  The scenario of the specification: index 3 exceeds \<open>safe_max = 8\<close>, index 1 lies within
  the warning margin of \<open>safe_min = 2\<close>.
\<close>

theorem breach_outranks_warning_witness:
  "check_breach_risk (TemperaturePredictor_init 2 8) (Some [5, 2.3, 5, 8.5]) 5 =
     (Some HIGH_TEMP, Some CRITICAL, Some 20)"
proof -
  let ?self = "TemperaturePredictor_init 2 8"
  let ?ps = "[5, 2.3, 5, 8.5] :: real list"
  have h1: "3 < length ?ps" by simp
  have h2: "?ps ! 3 > safe_max ?self" by (simp add: TemperaturePredictor_init_def)
  have h3: "\<forall>j<3. \<not> ?ps ! j > safe_max ?self"
  proof (intro allI impI)
    fix j :: nat assume "j < 3"
    then have "j = 0 \<or> j = 1 \<or> j = 2" by arith
    then show "\<not> ?ps ! j > safe_max ?self"
      by (auto simp: TemperaturePredictor_init_def)
  qed
  show ?thesis
    using breach_outranks_warning [OF h1 h2 h3, of 5]
    by (simp add: TemperaturePredictor_init_def)
qed

text \<open>
  C7. When an actual breach is reported (a value above \<open>safe_max\<close>, or none above
  \<open>safe_max\<close> and a value below \<open>safe_min\<close>), the minutes are the first offending
  index plus one, times the sample interval of 5 minutes, and the severity is CRITICAL
  exactly when the minutes are at most 60, WARNING otherwise.
\<close>

theorem breach_minutes_and_severity:
  assumes "i < length ps"
    and "(ps ! i > smax \<and> (\<forall>j<i. \<not> ps ! j > smax)) \<or>
         ((\<forall>j<length ps. \<not> ps ! j > smax) \<and> ps ! i < smin \<and> (\<forall>j<i. \<not> ps ! j < smin))"
  shows "\<exists>a s m. check_breach_risk (TemperaturePredictor_init smin smax) (Some ps) cur =
            (Some a, Some s, Some m) \<and>
          a = (if ps ! i > smax then HIGH_TEMP else LOW_TEMP) \<and>
          m = (i + 1) * 5 \<and>
          (s = CRITICAL \<longleftrightarrow> m \<le> 60) \<and> (s = WARNING \<longleftrightarrow> \<not> m \<le> 60)"
proof -
  let ?self = "TemperaturePredictor_init smin smax"
  have si: "sample_interval ?self = 5" and mx: "safe_max ?self = smax"
    and mn: "safe_min ?self = smin"
    by (simp_all add: TemperaturePredictor_init_def)
  from assms(2) show ?thesis
  proof
    assume up: "ps ! i > smax \<and> (\<forall>j<i. \<not> ps ! j > smax)"
    then have "check_breach_risk ?self (Some ps) cur =
           (Some HIGH_TEMP,
            Some (if (i + 1) * sample_interval ?self \<le> 60 then CRITICAL else WARNING),
            Some ((i + 1) * sample_interval ?self))"
      using check_breach_risk_upper [of i ps ?self cur] assms(1) mx by simp
    with up show ?thesis by (simp add: si)
  next
    assume lo: "(\<forall>j<length ps. \<not> ps ! j > smax) \<and> ps ! i < smin \<and>
                (\<forall>j<i. \<not> ps ! j < smin)"
    then have "check_breach_risk ?self (Some ps) cur =
           (Some LOW_TEMP,
            Some (if (i + 1) * sample_interval ?self \<le> 60 then CRITICAL else WARNING),
            Some ((i + 1) * sample_interval ?self))"
      using check_breach_risk_lower [of i ps ?self cur] assms(1) mx mn by simp
    moreover from lo assms(1) have "\<not> ps ! i > smax" by blast
    ultimately show ?thesis by (simp add: si)
  qed
qed

text \<open>
  A forecast that first drops below \<open>safe_min = 2\<close> at index 12: 65 minutes, so WARNING.
\<close>

theorem breach_minutes_and_severity_witness:
  "\<exists>a s m. check_breach_risk (TemperaturePredictor_init 2 8)
              (Some (replicate 12 5 @ [1.5])) 5 = (Some a, Some s, Some m) \<and>
     a = LOW_TEMP \<and> m = 65 \<and> s = WARNING"
proof -
  let ?ps = "replicate 12 5 @ [1.5] :: real list"
  have nth: "?ps ! j = (if j < 12 then 5 else 1.5)" if "j < 13" for j
    using that by (simp add: nth_append)
  have h1: "12 < length ?ps" by simp
  have h2: "(?ps ! 12 > 8 \<and> (\<forall>j<12. \<not> ?ps ! j > 8)) \<or>
         ((\<forall>j<length ?ps. \<not> ?ps ! j > 8) \<and> ?ps ! 12 < 2 \<and> (\<forall>j<12. \<not> ?ps ! j < 2))"
    by (rule disjI2) (simp add: nth_append)
  from breach_minutes_and_severity [OF h1 h2, of 5]
  show ?thesis by (simp add: nth_append)
qed

text \<open>
  C6. The comparisons are strict. A forecast whose values all lie in the closed range
  \<open>[safe_min, safe_max]\<close> has no breach index, so a value equal to a bound is never
  reported as a breach (the answer is the one of the warning scans, never CRITICAL); a
  forecast whose values all lie in \<open>[safe_min + 0.5, safe_max - 0.5]\<close>, the bounds of
  the warning margins included, raises nothing at all; and an index is in a scan's
  list only for a strictly greater (resp. smaller) value.
\<close>

theorem comparisons_are_strict:
  shows "((\<forall>v\<in>set ps. safe_min self \<le> v \<and> v \<le> safe_max self) \<longrightarrow>
            upper_breach_indices self ps = [] \<and> lower_breach_indices self ps = [] \<and>
            check_breach_risk self (Some ps) cur = upper_warning self ps \<and>
            fst (snd (check_breach_risk self (Some ps) cur)) \<noteq> Some CRITICAL) \<and>
         ((\<forall>v\<in>set ps. safe_min self + 0.5 \<le> v \<and> v \<le> safe_max self - 0.5) \<longrightarrow>
            check_breach_risk self (Some ps) cur = (None, None, None)) \<and>
         (i \<in> set (upper_breach_indices self ps) \<longleftrightarrow> i < length ps \<and> ps ! i > safe_max self) \<and>
         (i \<in> set (lower_breach_indices self ps) \<longleftrightarrow> i < length ps \<and> ps ! i < safe_min self) \<and>
         (i \<in> set (upper_warning_indices self ps) \<longleftrightarrow>
            i < length ps \<and> ps ! i > safe_max self - 0.5) \<and>
         (i \<in> set (lower_warning_indices self ps) \<longleftrightarrow>
            i < length ps \<and> ps ! i < safe_min self + 0.5)"
proof -
  have warn_sev: "fst (snd (upper_warning self ps)) \<noteq> Some CRITICAL"
    by (simp add: upper_warning_def lower_warning_def Let_def split: list.split)
  have A: "upper_breach_indices self ps = [] \<and> lower_breach_indices self ps = [] \<and>
            check_breach_risk self (Some ps) cur = upper_warning self ps \<and>
            fst (snd (check_breach_risk self (Some ps) cur)) \<noteq> Some CRITICAL"
    if h: "\<forall>v\<in>set ps. safe_min self \<le> v \<and> v \<le> safe_max self"
  proof -
    have rng: "safe_min self \<le> ps ! j \<and> ps ! j \<le> safe_max self" if "j < length ps" for j
      using h that by simp
    have "\<not> ps ! j > safe_max self" if "j < length ps" for j
      using rng [OF that] by linarith
    then have u: "upper_breach_indices self ps = []"
      unfolding upper_breach_indices_def by (intro np_where_empty) blast
    have "\<not> ps ! j < safe_min self" if "j < length ps" for j
      using rng [OF that] by linarith
    then have l: "lower_breach_indices self ps = []"
      unfolding lower_breach_indices_def by (intro np_where_empty) blast
    have c: "check_breach_risk self (Some ps) cur = upper_warning self ps"
      by (simp add: check_breach_risk_def u l)
    show ?thesis using u l c warn_sev by simp
  qed
  have B: "check_breach_risk self (Some ps) cur = (None, None, None)"
    if h: "\<forall>v\<in>set ps. safe_min self + 0.5 \<le> v \<and> v \<le> safe_max self - 0.5"
  proof -
    have rng: "safe_min self + 0.5 \<le> ps ! j \<and> ps ! j \<le> safe_max self - 0.5"
      if "j < length ps" for j
      using h that by simp
    have "\<not> ps ! j > safe_max self" if "j < length ps" for j
      using rng [OF that] by linarith
    then have u: "upper_breach_indices self ps = []"
      unfolding upper_breach_indices_def by (intro np_where_empty) blast
    have "\<not> ps ! j < safe_min self" if "j < length ps" for j
      using rng [OF that] by linarith
    then have l: "lower_breach_indices self ps = []"
      unfolding lower_breach_indices_def by (intro np_where_empty) blast
    have "\<not> ps ! j > safe_max self - 0.5" if "j < length ps" for j
      using rng [OF that] by linarith
    then have uw: "upper_warning_indices self ps = []"
      unfolding upper_warning_indices_def by (intro np_where_empty) blast
    have "\<not> ps ! j < safe_min self + 0.5" if "j < length ps" for j
      using rng [OF that] by linarith
    then have lw: "lower_warning_indices self ps = []"
      unfolding lower_warning_indices_def by (intro np_where_empty) blast
    show ?thesis
      by (simp add: check_breach_risk_def upper_warning_def lower_warning_def u l uw lw)
  qed
  have M: "i \<in> set (upper_breach_indices self ps) \<longleftrightarrow> i < length ps \<and> ps ! i > safe_max self"
    "i \<in> set (lower_breach_indices self ps) \<longleftrightarrow> i < length ps \<and> ps ! i < safe_min self"
    "i \<in> set (upper_warning_indices self ps) \<longleftrightarrow> i < length ps \<and> ps ! i > safe_max self - 0.5"
    "i \<in> set (lower_warning_indices self ps) \<longleftrightarrow> i < length ps \<and> ps ! i < safe_min self + 0.5"
    by (simp_all add: upper_breach_indices_def lower_breach_indices_def
        upper_warning_indices_def lower_warning_indices_def np_where_mem)
  show ?thesis
    using A B M by blast
qed

text \<open>
  With the default bounds 2 and 8: the values 8 and 2 are no breach (the answer comes from
  the warning scans), and the values 7.5 and 2.5 are no warning.
\<close>

theorem comparisons_are_strict_witness:
  "check_breach_risk (TemperaturePredictor_init 2 8) (Some [8, 2]) 5 =
     upper_warning (TemperaturePredictor_init 2 8) [8, 2] \<and>
   fst (snd (check_breach_risk (TemperaturePredictor_init 2 8) (Some [8, 2]) 5)) \<noteq> Some CRITICAL \<and>
   check_breach_risk (TemperaturePredictor_init 2 8) (Some [7.5, 2.5]) 5 = (None, None, None)"
proof -
  let ?self = "TemperaturePredictor_init 2 8"
  have h1: "\<forall>v\<in>set [8, 2 :: real]. safe_min ?self \<le> v \<and> v \<le> safe_max ?self"
    by (simp add: TemperaturePredictor_init_def)
  have h2: "\<forall>v\<in>set [7.5, 2.5 :: real]. safe_min ?self + 0.5 \<le> v \<and> v \<le> safe_max ?self - 0.5"
    by (simp add: TemperaturePredictor_init_def)
  from comparisons_are_strict [where ps = "[8, 2]" and self = ?self and cur = 5 and i = 0] h1
    comparisons_are_strict [where ps = "[7.5, 2.5]" and self = ?self and cur = 5 and i = 0] h2
  show ?thesis by blast
qed

section \<open>Properties of the forecast\<close>

lemma steps_default:
  "py_floordiv (prediction_horizon (TemperaturePredictor_init smin smax))
     (sample_interval (TemperaturePredictor_init smin smax)) = Inr 24"
  by (simp add: py_floordiv_def TemperaturePredictor_init_def)

lemma predict_temperature_short:
  assumes "length temperature_data < 20"
  shows "predict_temperature (TemperaturePredictor_init smin smax) ridge clk temperature_data =
           Inr (Some (map (\<lambda>i. (if length temperature_data > 0
                                  then r_temperature (last temperature_data) else 5.0)
                                 + real i * 0.05) [1..<25]),
                (time_end clk - time_start clk) * 1000, 75.0)"
  using assms by (simp add: predict_temperature_def steps_default Let_def)

lemma length_ewm_mean: "length (ewm_mean alpha num den xs) = length xs"
  by (induction xs arbitrary: num den) (simp_all add: Let_def)

lemma collect_all_Inr:
  assumes "\<forall>r\<in>set rs. \<exists>x. r = Inr x"
  shows "\<exists>xs. collect rs = Inr xs \<and> length xs = length rs"
  using assms
proof (induction rs)
  case Nil
  then show ?case by simp
next
  case (Cons r rs)
  then obtain x where r: "r = Inr x" by auto
  from Cons obtain xs where "collect rs = Inr xs" "length xs = length rs" by auto
  with r show ?case by simp
qed

lemma window_features_nonempty:
  "window \<noteq> [] \<Longrightarrow> \<exists>fs. window_features std window lags = Inr fs"
  by (simp add: window_features_def)

lemma create_features_ok:
  assumes "0 < lags"
  shows "\<exists>X. create_features series lags = Inr X"
proof -
  have "\<exists>x. window_features pd_std (take lags (drop (i - lags) series)) lags = Inr x"
    if "i \<in> set [lags..<length series]" for i
  proof -
    from that assms have "i - lags < length series" by auto
    with assms have "take lags (drop (i - lags) series) \<noteq> []" by simp
    then show ?thesis by (rule window_features_nonempty)
  qed
  then have "\<forall>r\<in>set (map (\<lambda>i. window_features pd_std (take lags (drop (i - lags) series)) lags)
                  [lags..<length series]). \<exists>x. r = Inr x"
    by auto
  from collect_all_Inr [OF this] show ?thesis
    unfolding create_features_def by blast
qed

lemma project_ok:
  "current_window \<noteq> [] \<Longrightarrow>
     \<exists>ps. project model lags hours k n current_window = Inr ps \<and> length ps = n"
proof (induction n arbitrary: k current_window)
  case 0
  then show ?case by simp
next
  case (Suc n)
  from Suc.prems obtain fs where fs: "window_features np_std current_window lags = Inr fs"
    using window_features_nonempty by blast
  define t where "t = (if 20 \<le> hours k \<or> hours k < 6 then model fs - 0.05
                        else if 10 \<le> hours k \<and> hours k < 16 then model fs + 0.05
                        else model fs)"
  have "tl current_window @ [t] \<noteq> []" by simp
  from Suc.IH [OF this, of "Suc k"] obtain ps
    where "project model lags hours (Suc k) n (tl current_window @ [t]) = Inr ps" "length ps = n"
    by blast
  then show ?case
    by (simp add: fs Let_def t_def)
qed

lemma project_hours:
  "\<forall>j<n. h1 (k + j) = h2 (k + j) \<Longrightarrow>
     project model lags h1 k n current_window = project model lags h2 k n current_window"
proof (induction n arbitrary: k current_window)
  case 0
  then show ?case by simp
next
  case (Suc n)
  from Suc.prems have hk: "h1 k = h2 k" by (metis add.right_neutral zero_less_Suc)
  have "\<forall>j<n. h1 (Suc k + j) = h2 (Suc k + j)"
  proof (intro allI impI)
    fix j assume "j < n"
    then have "Suc j < Suc n" by simp
    with Suc.prems have "h1 (k + Suc j) = h2 (k + Suc j)" by blast
    then show "h1 (Suc k + j) = h2 (Suc k + j)" by simp
  qed
  from Suc.IH [OF this] show ?case
    by (simp add: hk Let_def split: sum.split)
qed

text \<open>
  C8. A non-empty history of fewer than 20 readings gives the naive forecast: 24 values,
  the \<open>k\<close>-th (from 1) being the last observed temperature plus \<open>k\<close> times 0.05, and
  the accuracy 75.0.
\<close>

theorem naive_forecast:
  assumes "temperature_data \<noteq> []" and "length temperature_data < 20"
  shows "\<exists>ps el. predict_temperature (TemperaturePredictor_init smin smax) ridge clk
                   temperature_data = Inr (Some ps, el, 75.0) \<and>
           length ps = 24 \<and>
           (\<forall>k. 1 \<le> k \<and> k \<le> 24 \<longrightarrow>
                ps ! (k - 1) = r_temperature (last temperature_data) + real k * 0.05)"
proof -
  let ?ps = "map (\<lambda>i. r_temperature (last temperature_data) + real i * 0.05) [1..<25]"
  have "predict_temperature (TemperaturePredictor_init smin smax) ridge clk temperature_data =
          Inr (Some ?ps, (time_end clk - time_start clk) * 1000, 75.0)"
    using predict_temperature_short [OF assms(2)] assms(1) by simp
  moreover have "length ?ps = 24" by simp
  moreover have "?ps ! (k - 1) = r_temperature (last temperature_data) + real k * 0.05"
    if "1 \<le> k \<and> k \<le> 24" for k
  proof -
    from that have "k - 1 < 25 - 1" by arith
    then have "?ps ! (k - 1) =
                 r_temperature (last temperature_data) + real (1 + (k - 1)) * 0.05"
      by (simp only: nth_map_upt)
    with that show ?thesis by simp
  qed
  ultimately show ?thesis by blast
qed

text \<open>Three readings, all at 5.0: the ramp starts at 5.05 and rises by 0.05 per step.\<close>

theorem naive_forecast_witness:
  "\<exists>ps el. predict_temperature (TemperaturePredictor_init 2 8) latest_value_model noon_clock
              three_readings = Inr (Some ps, el, 75.0) \<and>
     length ps = 24 \<and> ps ! 0 = 5.05 \<and> ps ! 1 = 5.1 \<and> ps ! 23 = 6.2"
proof -
  have h1: "three_readings \<noteq> []" by (simp add: three_readings_def)
  have h2: "length three_readings < 20" by (simp add: three_readings_def)
  have l: "r_temperature (last three_readings) = 5" by (simp add: three_readings_def)
  from naive_forecast [OF h1 h2, of 2 8 latest_value_model noon_clock]
  obtain ps el where p: "predict_temperature (TemperaturePredictor_init 2 8) latest_value_model
        noon_clock three_readings = Inr (Some ps, el, 75.0)"
    and n: "length ps = 24"
    and v: "\<forall>k. 1 \<le> k \<and> k \<le> 24 \<longrightarrow> ps ! (k - 1) = r_temperature (last three_readings) + real k * 0.05"
    by blast
  from v [rule_format, of 1] v [rule_format, of 2] v [rule_format, of 24] l
  have "ps ! 0 = 5.05 \<and> ps ! 1 = 5.1 \<and> ps ! 23 = 6.2" by simp
  with p n show ?thesis by blast
qed

text \<open>
  C5, as the code has it. An empty history does not raise, and it does not give an
  absent forecast either: the last temperature defaults to 5.0 and the naive forecast of
  24 values from 5.05 upwards is returned with the accuracy 75.0.
\<close>

theorem empty_history_default_ramp:
  "predict_temperature (TemperaturePredictor_init smin smax) ridge clk [] =
     Inr (Some (map (\<lambda>i. 5.0 + real i * 0.05) [1..<25]),
          (time_end clk - time_start clk) * 1000, 75.0)"
  using predict_temperature_short [of "[]" smin smax ridge clk] by simp

text \<open>C5, as stated, fails: the forecast of the empty history is present.\<close>

theorem empty_history_counterexample:
  "fst (projr (predict_temperature (TemperaturePredictor_init 2 8) latest_value_model
                 noon_clock [])) \<noteq> None"
  using predict_temperature_short [of "[]" 2 8 latest_value_model noon_clock] by simp

text \<open>
  C10. With at least 20 readings the window is always feasible, \<open>lags + 5 \<le> n\<close> for
  \<open>lags = min 12 (n div 3)\<close>, so the length check never answers None: the call returns
  a forecast of exactly 24 values (and raises nothing).
\<close>

theorem window_always_feasible:
  assumes "20 \<le> length temperature_data"
  shows "min 12 (length temperature_data div 3) + 5 \<le> length temperature_data \<and>
         (\<exists>ps el acc. predict_temperature (TemperaturePredictor_init smin smax) ridge clk
                         temperature_data = Inr (Some ps, el, acc) \<and> length ps = 24)"
proof -
  let ?n = "length temperature_data"
  let ?series = "smooth_temperature (map r_temperature temperature_data) 0.3"
  let ?lags = "min 12 (?n div 3)"
  have len: "length ?series = ?n"
    by (simp add: smooth_temperature_def length_ewm_mean)
  have feas: "?lags + 5 \<le> ?n" using assms by simp
  have pos: "0 < ?lags" using assms by simp
  obtain X where X: "create_features ?series ?lags = Inr X"
    using create_features_ok [OF pos] by blast
  have "drop (length ?series - ?lags) ?series \<noteq> []"
    using len pos assms by simp
  from project_ok [OF this] obtain ps
    where ps: "project (ridge 1.0 42 X (drop ?lags ?series)) ?lags (hour_at clk) 0 24
                 (drop (length ?series - ?lags) ?series) = Inr ps" and n: "length ps = 24"
    by blast
  have "\<not> ?n < 20" using assms by simp
  moreover have "\<not> length ?series < ?lags + 5" using feas len by simp
  ultimately have "\<exists>el acc. predict_temperature (TemperaturePredictor_init smin smax) ridge clk
                     temperature_data = Inr (Some ps, el, acc)"
    using X ps by (simp add: predict_temperature_def steps_default Let_def)
  with feas n show ?thesis by blast
qed

theorem window_always_feasible_witness:
  "min 12 (length twenty_readings div 3) + 5 \<le> length twenty_readings \<and>
   (\<exists>ps el acc. predict_temperature (TemperaturePredictor_init 2 8) latest_value_model
                   noon_clock twenty_readings = Inr (Some ps, el, acc) \<and> length ps = 24)"
proof -
  have h: "20 \<le> length twenty_readings" by (simp add: twenty_readings_def)
  from window_always_feasible [OF h] show ?thesis .
qed

text \<open>
  C9. The forecast and the accuracy of a call are determined by the reading history and
  by the hours read in the projection loop: two calls on the same history whose clocks
  show the same hours agree on both (and on the exception, if one is raised), whatever
  their time readings are and with the regression seeded by the constant 42 in both.
\<close>

theorem forecast_deterministic:
  assumes "\<forall>k<prediction_horizon self div sample_interval self. hour_at clk1 k = hour_at clk2 k"
  shows "map_sum id (\<lambda>(ps, el, acc). (ps, acc))
           (predict_temperature self ridge clk1 temperature_data) =
         map_sum id (\<lambda>(ps, el, acc). (ps, acc))
           (predict_temperature self ridge clk2 temperature_data)"
proof -
  have P: "project model lags (hour_at clk1) 0 (prediction_horizon self div sample_interval self) w =
           project model lags (hour_at clk2) 0 (prediction_horizon self div sample_interval self) w"
    for model lags w
    using assms by (intro project_hours) simp
  show ?thesis
    by (simp add: predict_temperature_def Let_def py_floordiv_def P split: sum.split)
qed

theorem forecast_deterministic_witness:
  "map_sum id (\<lambda>(ps, el, acc). (ps, acc))
     (predict_temperature (TemperaturePredictor_init 2 8) latest_value_model noon_clock
        twenty_readings) =
   map_sum id (\<lambda>(ps, el, acc). (ps, acc))
     (predict_temperature (TemperaturePredictor_init 2 8) latest_value_model noon_clock_later
        twenty_readings)"
proof -
  have h: "\<forall>k<prediction_horizon (TemperaturePredictor_init 2 8)
                 div sample_interval (TemperaturePredictor_init 2 8).
             hour_at noon_clock k = hour_at noon_clock_later k"
    by (simp add: noon_clock_def noon_clock_later_def)
  from forecast_deterministic [OF h] show ?thesis .
qed

section \<open>Properties of the hash chains\<close>












text \<open>A test vector of FIPS 180-4, and the digests of the texts of the examples.\<close>

lemma sha256_abc:
  "sha256 ''abc'' = ''ba7816bf8f01cfea414140de5dae2223b00361a396177a9cb410ff61f20015ad''"
  by code_simp

lemma digest_appended:
  "sha256 ''2024-01-01T12:00:00|DOC001|LOGIN|ok|0000000000000000000000000000000000000000000000000000000000000000'' =
     ''d4c774c696cf98d1869eceb86f5c2cdfe4097ff43e26bf8650fc21b56a361622''"
  by code_simp

lemma digest_verified:
  "sha256 ''2024-01-01 12:00:00|DOC001|LOGIN|ok|0000000000000000000000000000000000000000000000000000000000000000'' =
     ''ad3d9d476cc8571cda66349273aa61306e32d5b6d0601aff6a6cee711477cb27''"
  by code_simp




lemmas eval_audit =
  add_audit_entry_def verify_audit_trail_def audit_stream_def calculated_hash_def
  valid_result_def isoformat_def datetime_str_def isoformat_sep_def dec2_def dec4_def
  dec6_def digit_def sentinel_def new_year_noon_def five_past_noon_def ten_past_noon_def
  init_database_def update_audit_row_def Let_def





text \<open>
  C1, on the code. One entry appended to the empty trail of the sample doctor, then
  verified: the text hashed by \<^verbatim>\<open>add_audit_entry\<close> has the timestamp
  \<^verbatim>\<open>2024-01-01T12:00:00\<close>, the text hashed by \<^verbatim>\<open>verify_audit_trail\<close> has
  \<^verbatim>\<open>2024-01-01 12:00:00\<close>, the digests differ and the untampered record is reported.
\<close>

theorem append_then_verify_fails:
  "verify_audit_trail
     (snd (add_audit_entry init_database new_year_noon ''DOC001'' ''LOGIN'' ''ok''))
     ''DOC001'' = (False, Some 1, [])"
  by (simp add: eval_audit digest_appended digest_verified)

text \<open>
  C2, on the code. The sample doctor has three entries, with the ids 1, 2 and 3, and the
  details of the third are changed from \<^verbatim>\<open>ok\<close> to \<^verbatim>\<open>no\<close>. \<^verbatim>\<open>verify_audit_trail\<close> stops
  at the first record, as it does on the untampered trail: it reports the id 1, not the
  tampered record.
\<close>

theorem tampering_reported_at_first_record:
  "map a_id (audit_stream three_entries ''DOC001'') = [1, 2, 3] \<and>
   verify_audit_trail (update_audit_row 3 (set_details ''no'') three_entries) ''DOC001'' =
     (False, Some 1, []) \<and>
   verify_audit_trail three_entries ''DOC001'' = (False, Some 1, [])"
  by (simp add: three_entries_def set_details_def eval_audit digest_appended digest_verified)

end
